theory Spec2Isabelle
  imports Main "HOL-Library.Log_Nat"
begin

section \<open>The file-storage page (src/pages/Files.tsx)\<close>

text \<open>
  The page keeps a list of file records and a statistics snapshot in React state, and its
  event handlers talk to the storage service. The handlers are modelled as functions on an
  explicit page state. Everything a handler does beyond updating the state (a request, a
  notification, a console line, the confirmation prompt) is appended to a trace kept in the
  state, in the order the code performs it.
\<close>

subsection \<open>Data model\<close>

text \<open>
  \<^verbatim>\<open>interface MediaFile\<close>. The field \<^verbatim>\<open>id\<close> is called \<open>file_id\<close> here, since \<open>id\<close>
  is the identity function of HOL. Optional fields are options (\<open>None\<close> is
  \<^verbatim>\<open>undefined\<close>); \<^verbatim>\<open>number\<close> fields hold integers.
\<close>

record MediaFile =
  file_id :: string
  filename :: string
  original_name :: string
  mime_type :: string
  category :: string
  file_size :: nat
  platform :: "string option"
  chat_id :: "string option"
  processed :: bool
  created_at :: string
  is_permanent :: "int option"

text \<open>
  \<^verbatim>\<open>interface FileStats\<close>; \<^verbatim>\<open>byCategory\<close> is an object used through
  \<^verbatim>\<open>Object.entries\<close>, hence an association list.
\<close>

record CategoryStats =
  cat_count :: nat
  cat_size :: nat

record FileStats =
  totalFiles :: nat
  totalSize :: nat
  byCategory :: "(string \<times> CategoryStats) list"

subsection \<open>Strings\<close>

text \<open>
  \<^verbatim>\<open>String.prototype.toLowerCase\<close>, on strings of ASCII characters: the letters
  \<open>A\<close> to \<open>Z\<close> move to \<open>a\<close> to \<open>z\<close>, every other character stays.
\<close>

definition toLowerChar :: "char \<Rightarrow> char" where
  "toLowerChar c =
     (case map_of (zip ''ABCDEFGHIJKLMNOPQRSTUVWXYZ'' ''abcdefghijklmnopqrstuvwxyz'') c of
        Some l \<Rightarrow> l
      | None \<Rightarrow> c)"

definition toLowerCase :: "string \<Rightarrow> string" where
  "toLowerCase s = map toLowerChar s"

text \<open>
  \<^verbatim>\<open>s.includes(t)\<close>: \<open>t\<close> occurs in \<open>s\<close> as a contiguous run, looked for at position
  0, then 1, and so on up to the end of \<open>s\<close> (\<open>includes\<close> is a keyword of Isabelle,
  hence the suffix).
\<close>

fun includes_str :: "string \<Rightarrow> string \<Rightarrow> bool" where
  "includes_str [] t = (t = [])"
| "includes_str (c # s) t = (take (length t) (c # s) = t \<or> includes_str s t)"

subsection \<open>Rendering a byte count\<close>

text \<open>
  \<^verbatim>\<open>Math.floor(Math.log(bytes) / Math.log(k))\<close> for an integer \<open>bytes \<ge> 1\<close>: the
  largest \<open>i\<close> with \<open>k ^ i \<le> bytes\<close>, computed by repeated division. The code divides
  two floating-point logarithms; the model takes the floor of the exact quotient
  (\<open>floor_log_real\<close> below), which is what the code computes unless rounding carries the
  quotient across an integer.
\<close>

function floor_log :: "nat \<Rightarrow> nat \<Rightarrow> nat" where
  "floor_log k n = (if k \<le> 1 \<or> n < k then 0 else Suc (floor_log k (n div k)))"
  by pat_completeness auto
termination
  by (relation "measure (\<lambda>(k, n). n)") auto

declare floor_log.simps [simp del]

text \<open>Decimal digits of a natural number, as \<^verbatim>\<open>String(n)\<close> prints an integer.\<close>

definition digit_char :: "nat \<Rightarrow> char" where
  "digit_char d = ''0123456789'' ! d"

function digits :: "nat \<Rightarrow> string" where
  "digits n = (if n < 10 then [digit_char n] else digits (n div 10) @ [digit_char (n mod 10)])"
  by pat_completeness auto
termination
  by (relation "measure (\<lambda>n. n)") auto

declare digits.simps [simp del]

text \<open>
  \<^verbatim>\<open>parseFloat((bytes / d).toFixed(2))\<close>, in hundredths. \<^verbatim>\<open>toFixed(2)\<close> picks the
  integer \<open>h\<close> with \<open>h / 100\<close> nearest to the quotient, the larger one on a tie, and
  \<^verbatim>\<open>parseFloat\<close> reads the printed decimal back, so the number is \<open>h / 100\<close>.
  The divisor \<open>d\<close> is a power of 1024, so the quotient of the code is exact for every byte
  count below \<open>2 ^ 53\<close>.
\<close>

definition toFixed2 :: "nat \<Rightarrow> nat \<Rightarrow> nat" where
  "toFixed2 bytes d = (200 * bytes + d) div (2 * d)"

text \<open>
  The string that \<^verbatim>\<open>+\<close> makes of the number \<open>h / 100\<close>: the integer part, and the
  fraction digits without trailing zeros when there are any.
\<close>

definition number_to_string :: "nat \<Rightarrow> string" where
  "number_to_string h =
     digits (h div 100) @
       (if h mod 100 = 0 then []
        else if h mod 10 = 0 then CHR ''.'' # [digit_char (h mod 100 div 10)]
        else CHR ''.'' # [digit_char (h mod 100 div 10), digit_char (h mod 10)])"

text \<open>
  \<^verbatim>\<open>sizes[i]\<close>: an index past the end of a JavaScript array reads \<^verbatim>\<open>undefined\<close>
  (\<open>None\<close>), and string concatenation prints that as the text \<^verbatim>\<open>undefined\<close>.
\<close>

definition js_index :: "'a list \<Rightarrow> nat \<Rightarrow> 'a option" where
  "js_index xs i = (if i < length xs then Some (xs ! i) else None)"

definition js_to_string :: "string option \<Rightarrow> string" where
  "js_to_string v = (case v of None \<Rightarrow> ''undefined'' | Some s \<Rightarrow> s)"

definition sizes :: "string list" where
  "sizes = [''Bytes'', ''KB'', ''MB'', ''GB'']"

text \<open>The unit index \<^verbatim>\<open>i\<close> of \<^verbatim>\<open>formatFileSize\<close>, for \<open>bytes \<noteq> 0\<close>.\<close>

definition unit_index :: "nat \<Rightarrow> nat" where
  "unit_index bytes = floor_log 1024 bytes"

definition formatFileSize :: "nat \<Rightarrow> string" where
  "formatFileSize bytes =
     (if bytes = 0 then ''0 Bytes''
      else
        let k = 1024;
            i = unit_index bytes
        in number_to_string (toFixed2 bytes (k ^ i)) @ '' '' @ js_to_string (js_index sizes i))"

text \<open>The storage-usage headline: \<^verbatim>\<open>stats ? formatFileSize(stats.totalSize) : '...'\<close>.\<close>

definition storageUsage :: "FileStats option \<Rightarrow> string" where
  "storageUsage st = (case st of None \<Rightarrow> ''...'' | Some x \<Rightarrow> formatFileSize (totalSize x))"

subsection \<open>The client-side search\<close>

text \<open>
  \<^verbatim>\<open>filteredFiles\<close>, computed on every render from the fetched list and the search
  text. The name is lower-cased before the comparison; the category is compared as stored.
\<close>

definition filteredFiles :: "MediaFile list \<Rightarrow> string \<Rightarrow> MediaFile list" where
  "filteredFiles fs searchQuery =
     filter (\<lambda>f. includes_str (toLowerCase (original_name f)) (toLowerCase searchQuery) \<or>
                 includes_str (category f) (toLowerCase searchQuery)) fs"

text \<open>
  The search of section 8 of the specification, in its words: \<open>q\<close> is a case-insensitive
  substring of \<open>s\<close> when it occurs in \<open>s\<close> once the case of both is ignored.
\<close>

definition ci_substring :: "string \<Rightarrow> string \<Rightarrow> bool" where
  "ci_substring q s = includes_str (toLowerCase s) (toLowerCase q)"

definition spec_filtered :: "MediaFile list \<Rightarrow> string \<Rightarrow> MediaFile list" where
  "spec_filtered fs q =
     filter (\<lambda>r. ci_substring q (original_name r) \<or> ci_substring q (category r)) fs"

subsection \<open>Page state and effects\<close>

datatype http_method = GET | POST | PUT | DELETE

text \<open>A \<^verbatim>\<open>File\<close> of a picker selection or of a drop, by its content.\<close>

type_synonym blob = string

text \<open>
  Request bodies: \<^verbatim>\<open>JSON.stringify({ isPermanent: b })\<close>, and a \<^verbatim>\<open>FormData\<close> with
  its parts in the order they were appended, each with its field name.
\<close>

datatype request_body = IsPermanentJson bool | FormData "(string \<times> blob) list"

text \<open>A thrown or rejected value, by its message.\<close>

type_synonym js_error = string

text \<open>
  What a handler does to the outside. \<^verbatim>\<open>apiFetch\<close> is the shared transport helper
  of \<^verbatim>\<open>@/lib/api\<close>; a call is recorded with its url and with the method and body of its
  options when given. \<^verbatim>\<open>fetch\<close> is the browser's, recorded with url, method, headers
  and body.
\<close>

datatype event =
    ApiFetch string "http_method option" "request_body option"
  | Fetch string http_method "(string \<times> string) list" request_body
  | ToastSuccess string
  | ToastError string
  | ToastLoading string
  | ToastDismiss
  | ConsoleError "string list"
  | Confirm string
  | PreventDefault
  | StopPropagation

record page =
  files :: "MediaFile list"
  stats :: "FileStats option"
  storagePath :: string
  isLoading :: bool
  isUploading :: bool
  selectedCategory :: string
  dragActive :: bool
  searchQuery :: string
  trace :: "event list"

text \<open>The state of the first render: the arguments of the \<^verbatim>\<open>useState\<close> calls.\<close>

definition initial_page :: page where
  "initial_page =
     \<lparr>files = [], stats = None, storagePath = [], isLoading = False, isUploading = False,
      selectedCategory = ''all'', dragActive = False, searchQuery = [], trace = []\<rparr>"

definition emit :: "event \<Rightarrow> page \<Rightarrow> page" where
  "emit e s = s\<lparr>trace := trace s @ [e]\<rparr>"

text \<open>The requests of a trace, in order.\<close>

fun is_request :: "event \<Rightarrow> bool" where
  "is_request (ApiFetch u m b) = True"
| "is_request (Fetch u m h b) = True"
| "is_request e = False"

definition requests :: "event list \<Rightarrow> event list" where
  "requests t = filter is_request t"

text \<open>The upload transfers among them.\<close>

fun is_upload :: "event \<Rightarrow> bool" where
  "is_upload (Fetch u m h b) = (u = ''/api/files/upload'' \<and> m = POST)"
| "is_upload e = False"

definition uploads :: "event list \<Rightarrow> event list" where
  "uploads t = filter is_upload t"

subsection \<open>Fetching\<close>

text \<open>
  An \<^verbatim>\<open>async\<close> function runs up to its \<^verbatim>\<open>await\<close> when it is called and goes on
  when the awaited promise settles. Each one is modelled by two functions: \<open>f\<close>, the part
  up to the \<^verbatim>\<open>await\<close>, and \<open>f_resume\<close>, the part after it, which takes how the promise
  settled (\<open>Inl\<close> a thrown error, \<open>Inr\<close> the value) and the page state of that moment.
  State setters act on the current state; a plain variable of the component is read from
  the render whose closure the function belongs to, so it is a parameter. \<^verbatim>\<open>apiFetch\<close>
  is not part of this file: how its promise settles is a parameter too, \<open>Inl\<close> standing
  for every failure it reports by throwing (no answer, or an answer that is not a success).

  \<^verbatim>\<open>fetchFiles\<close> reads \<^verbatim>\<open>selectedCategory\<close> that way: \<open>cat\<close> is the value of the
  render that created this \<^verbatim>\<open>fetchFiles\<close>.
\<close>

definition fetchFiles :: "string \<Rightarrow> page \<Rightarrow> page" where
  "fetchFiles cat s =
     (let s1 = s\<lparr>isLoading := True\<rparr>;
          url = (if cat = ''all'' then ''/api/files'' else ''/api/files?category='' @ cat)
      in emit (ApiFetch url None None) s1)"

definition fetchFiles_resume :: "js_error + MediaFile list \<Rightarrow> page \<Rightarrow> page" where
  "fetchFiles_resume r s =
     (let s1 = (case r of
                  Inr data \<Rightarrow> s\<lparr>files := data\<rparr>
                | Inl err \<Rightarrow> emit (ConsoleError [''Failed to fetch files:'', err]) s)
      in s1\<lparr>isLoading := False\<rparr>)"

definition fetchStats :: "page \<Rightarrow> page" where
  "fetchStats s = emit (ApiFetch ''/api/files/stats'' None None) s"

definition fetchStats_resume :: "js_error + FileStats \<Rightarrow> page \<Rightarrow> page" where
  "fetchStats_resume r s =
     (case r of
        Inr data \<Rightarrow> s\<lparr>stats := Some data\<rparr>
      | Inl err \<Rightarrow> emit (ConsoleError [''Failed to fetch stats:'', err]) s)"

definition fetchPath :: "page \<Rightarrow> page" where
  "fetchPath s = emit (ApiFetch ''/api/files/path'' None None) s"

definition fetchPath_resume :: "js_error + string \<Rightarrow> page \<Rightarrow> page" where
  "fetchPath_resume r s =
     (case r of
        Inr path \<Rightarrow> s\<lparr>storagePath := path\<rparr>
      | Inl err \<Rightarrow> emit (ConsoleError [''Failed to fetch storage path:'', err]) s)"

text \<open>
  The tabs call \<^verbatim>\<open>setSelectedCategory\<close>; the effect with dependencies
  \<^verbatim>\<open>[user, selectedCategory]\<close> then runs in the next render, so its \<^verbatim>\<open>fetchFiles\<close>
  sees the category of the state it runs in. \<open>user\<close> says whether a user is signed in.
\<close>

definition setSelectedCategory :: "string \<Rightarrow> page \<Rightarrow> page" where
  "setSelectedCategory name s = s\<lparr>selectedCategory := name\<rparr>"

definition useEffect_body :: "bool \<Rightarrow> page \<Rightarrow> page" where
  "useEffect_body user s =
     (if user then fetchPath (fetchStats (fetchFiles (selectedCategory s) s)) else s)"

subsection \<open>Uploading\<close>

text \<open>
  The argument of \<^verbatim>\<open>handleFileUpload\<close>: a native DOM event (the case
  \<^verbatim>\<open>e instanceof Event\<close>, which a drag event is), or React's change event of the file
  input with its \<^verbatim>\<open>target.files\<close> (\<open>None\<close> is \<^verbatim>\<open>null\<close>).
\<close>

datatype upload_event = DomEvent | ChangeEvent "blob list option"

text \<open>How \<^verbatim>\<open>fetch\<close> settles: rejected, or resolved with a response and its \<^verbatim>\<open>ok\<close>.\<close>

datatype fetch_outcome = Rejected js_error | Resolved bool

text \<open>
  What the part after the \<^verbatim>\<open>await\<close> still reads from its closure: the length of the
  submitted file list, and the \<^verbatim>\<open>selectedCategory\<close> seen by the \<^verbatim>\<open>fetchFiles\<close> it
  calls.
\<close>

record upload_closure =
  submitted :: nat
  closure_category :: string

text \<open>\<^verbatim>\<open>`Bearer ${token}`\<close>, with the \<^verbatim>\<open>null\<close> of a missing token printed.\<close>

definition bearer :: "string option \<Rightarrow> string" where
  "bearer token = ''Bearer '' @ (case token of None \<Rightarrow> ''null'' | Some t \<Rightarrow> t)"

text \<open>
  \<^verbatim>\<open>handleFileUpload\<close> up to \<^verbatim>\<open>await fetch(...)\<close>. \<open>token\<close> is what
  \<^verbatim>\<open>localStorage.getItem('token')\<close> returns. The result is the new state and, when the
  function is suspended at the \<^verbatim>\<open>await\<close>, its closure; \<open>None\<close> is the early return.
  The function is created anew in every render, so its \<^verbatim>\<open>fetchFiles\<close> sees the
  category of the state the gesture happens in.
\<close>

definition handleFileUpload ::
  "string option \<Rightarrow> upload_event \<Rightarrow> page \<Rightarrow> page \<times> upload_closure option" where
  "handleFileUpload token e s =
     (let fileList = (case e of DomEvent \<Rightarrow> None | ChangeEvent fs \<Rightarrow> fs)
      in case fileList of
           None \<Rightarrow> (s, None)
         | Some fl \<Rightarrow>
             if length fl = 0 then (s, None)
             else
               let s1 = s\<lparr>isUploading := True\<rparr>;
                   formData = map (\<lambda>file. (''files'', file)) fl;
                   s2 = emit (Fetch ''/api/files/upload'' POST
                                [(''Authorization'', bearer token)] (FormData formData)) s1
               in (s2, Some \<lparr>submitted = length fl,
                             closure_category = selectedCategory s\<rparr>))"

definition handleFileUpload_resume :: "upload_closure \<Rightarrow> fetch_outcome \<Rightarrow> page \<Rightarrow> page" where
  "handleFileUpload_resume c r s =
     (let s1 = (case r of
                  Resolved True \<Rightarrow>
                    fetchStats (fetchFiles (closure_category c)
                      (emit (ToastSuccess (''Uploaded '' @ digits (submitted c) @
                                           '' files successfully'')) s))
                | Resolved False \<Rightarrow>
                    emit (ConsoleError [''Upload failed''])
                      (emit (ToastError ''Failed to upload files'') s)
                | Rejected err \<Rightarrow>
                    emit (ConsoleError [err]) (emit (ToastError ''Failed to upload files'') s))
      in s1\<lparr>isUploading := False\<rparr>)"

text \<open>
  \<^verbatim>\<open>handleDrop\<close> up to the call of \<^verbatim>\<open>fetch\<close>; \<open>dropped\<close> is
  \<^verbatim>\<open>e.dataTransfer.files\<close>. The input element it creates is never used. The handler is
  memoised by \<^verbatim>\<open>useCallback(..., [])\<close>: it stays the function of the first render, and
  the \<^verbatim>\<open>fetchFiles\<close> it calls is that render's, whose \<^verbatim>\<open>selectedCategory\<close> is the
  initial state.
\<close>

definition handleDrop ::
  "string option \<Rightarrow> blob list option \<Rightarrow> page \<Rightarrow> page \<times> upload_closure option" where
  "handleDrop token dropped s =
     (let s0 = (emit StopPropagation (emit PreventDefault s))\<lparr>dragActive := False\<rparr>
      in case dropped of
           None \<Rightarrow> (s0, None)
         | Some fl \<Rightarrow>
             if length fl > 0 then
               let formData = map (\<lambda>file. (''files'', file)) fl;
                   s1 = s0\<lparr>isUploading := True\<rparr>;
                   s2 = emit (Fetch ''/api/files/upload'' POST
                                [(''Authorization'', bearer token)] (FormData formData)) s1
               in (s2, Some \<lparr>submitted = length fl,
                             closure_category = selectedCategory initial_page\<rparr>)
             else (s0, None))"

text \<open>The \<^verbatim>\<open>then\<close>, \<^verbatim>\<open>catch\<close> and \<^verbatim>\<open>finally\<close> callbacks of \<^verbatim>\<open>handleDrop\<close>.\<close>

definition handleDrop_resume :: "upload_closure \<Rightarrow> fetch_outcome \<Rightarrow> page \<Rightarrow> page" where
  "handleDrop_resume c r s =
     (let s1 = (case r of
                  Resolved True \<Rightarrow>
                    fetchStats (fetchFiles (closure_category c)
                      (emit (ToastSuccess ''Files uploaded'') s))
                | Resolved False \<Rightarrow> emit (ToastError ''Upload failed'') s
                | Rejected err \<Rightarrow> emit (ToastError ''Upload failed'') s)
      in s1\<lparr>isUploading := False\<rparr>)"

text \<open>A whole gesture, when nothing else happens before the upload settles.\<close>

definition picker_gesture :: "string option \<Rightarrow> blob list \<Rightarrow> fetch_outcome \<Rightarrow> page \<Rightarrow> page" where
  "picker_gesture token fl r s =
     (case handleFileUpload token (ChangeEvent (Some fl)) s of
        (s1, None) \<Rightarrow> s1
      | (s1, Some c) \<Rightarrow> handleFileUpload_resume c r s1)"

definition drop_gesture :: "string option \<Rightarrow> blob list \<Rightarrow> fetch_outcome \<Rightarrow> page \<Rightarrow> page" where
  "drop_gesture token fl r s =
     (case handleDrop token (Some fl) s of
        (s1, None) \<Rightarrow> s1
      | (s1, Some c) \<Rightarrow> handleDrop_resume c r s1)"

subsection \<open>Knowledge processing, deletion, retention\<close>

text \<open>The parameter \<^verbatim>\<open>id\<close> of these handlers is \<open>fid\<close>.\<close>

definition handleProcessKnowledge :: "string \<Rightarrow> page \<Rightarrow> page" where
  "handleProcessKnowledge fid s =
     emit (ApiFetch (''/api/files/'' @ fid @ ''/process-knowledge'') (Some POST) None)
       (emit (ToastLoading ''Processing file for Knowledge Bank...'') s)"

definition handleProcessKnowledge_resume :: "js_error + 'a \<Rightarrow> page \<Rightarrow> page" where
  "handleProcessKnowledge_resume r s =
     (case r of
        Inr v \<Rightarrow> emit (ToastSuccess ''Added to Knowledge Bank'') (emit ToastDismiss s)
      | Inl err \<Rightarrow>
          emit (ConsoleError [err])
            (emit (ToastError ''Failed to process file'') (emit ToastDismiss s)))"

text \<open>
  \<^verbatim>\<open>handleDelete\<close>; \<open>confirmed\<close> is the answer to the \<^verbatim>\<open>confirm\<close> prompt. The
  boolean of the result says whether the function is suspended at the \<^verbatim>\<open>await\<close>.
\<close>

definition handleDelete :: "string \<Rightarrow> bool \<Rightarrow> page \<Rightarrow> page \<times> bool" where
  "handleDelete fid confirmed s =
     (let s1 = emit (Confirm ''Delete this file?'') s
      in if \<not> confirmed then (s1, False)
         else (emit (ApiFetch (''/api/files/'' @ fid) (Some DELETE) None) s1, True))"

definition handleDelete_resume :: "string \<Rightarrow> js_error + 'a \<Rightarrow> page \<Rightarrow> page" where
  "handleDelete_resume fid r s =
     (case r of
        Inr v \<Rightarrow>
          (let s1 = emit (ToastSuccess ''File deleted'') s;
               s2 = s1\<lparr>files := filter (\<lambda>f. file_id f \<noteq> fid) (files s1)\<rparr>
           in fetchStats s2)
      | Inl err \<Rightarrow> emit (ToastError ''Failed to delete file'') s)"

text \<open>The answer of the retention endpoint, \<^verbatim>\<open>{ is_permanent }\<close>.\<close>

record PermanentResponse =
  res_is_permanent :: "int option"

text \<open>Truthiness of an optional number: \<^verbatim>\<open>undefined\<close> and 0 are falsy.\<close>

definition truthy :: "int option \<Rightarrow> bool" where
  "truthy v = (case v of None \<Rightarrow> False | Some n \<Rightarrow> n \<noteq> 0)"

definition handleTogglePermanent :: "string \<Rightarrow> bool \<Rightarrow> page \<Rightarrow> page" where
  "handleTogglePermanent fid currentStatus s =
     emit (ApiFetch (''/api/files/'' @ fid @ ''/permanent'') (Some PUT)
             (Some (IsPermanentJson (\<not> currentStatus)))) s"

definition handleTogglePermanent_resume ::
  "string \<Rightarrow> js_error + PermanentResponse \<Rightarrow> page \<Rightarrow> page" where
  "handleTogglePermanent_resume fid r s =
     (case r of
        Inr res \<Rightarrow>
          (let s1 = s\<lparr>files := map (\<lambda>f. if file_id f = fid
                                          then f\<lparr>is_permanent := res_is_permanent res\<rparr>
                                          else f) (files s)\<rparr>
           in emit (ToastSuccess (if truthy (res_is_permanent res)
                                  then ''File marked as permanent''
                                  else ''File unmarked as permanent'')) s1)
      | Inl err \<Rightarrow> emit (ToastError ''Failed to update file status'') s)"

subsection \<open>Dragging, searching, and the page as a whole\<close>

text \<open>\<^verbatim>\<open>handleDrag\<close>; \<open>etype\<close> is \<^verbatim>\<open>e.type\<close>.\<close>

definition handleDrag :: "string \<Rightarrow> page \<Rightarrow> page" where
  "handleDrag etype s =
     (let s0 = emit StopPropagation (emit PreventDefault s)
      in if etype = ''dragenter'' \<or> etype = ''dragover'' then s0\<lparr>dragActive := True\<rparr>
         else if etype = ''dragleave'' then s0\<lparr>dragActive := False\<rparr>
         else s0)"

text \<open>The search input: \<^verbatim>\<open>onChange={(e) => setSearchQuery(e.target.value)}\<close>.\<close>

definition setSearchQuery :: "string \<Rightarrow> page \<Rightarrow> page" where
  "setSearchQuery text s = s\<lparr>searchQuery := text\<rparr>"


text \<open>
  Everything runs on the one UI thread, one piece at a time: a user gesture runs a handler
  up to its \<^verbatim>\<open>await\<close>, and a settled promise runs the part after it. \<open>action\<close> lists
  these pieces and \<open>step\<close> runs one of them; \<open>run\<close> runs a sequence.

  \<open>EffectRun\<close> is a run of the effect for another reason than a tab change (the first
  render, a change of \<^verbatim>\<open>user\<close>). \<open>SelectTab\<close> is \<^verbatim>\<open>onValueChange\<close> of the tabs: the
  state is set and, the category being a dependency of the effect, the effect runs in the
  render that follows; setting the category that is already selected changes no
  dependency, so nothing runs. The boolean of both says whether a user is signed in.
\<close>

datatype action =
    EffectRun bool
  | SelectTab bool string
  | TypeSearch string
  | DragOver string
  | FilesSettled "js_error + MediaFile list"
  | StatsSettled "js_error + FileStats"
  | PathSettled "js_error + string"
  | PickFiles "string option" upload_event
  | PickerSettled upload_closure fetch_outcome
  | DropFiles "string option" "blob list option"
  | DropSettled upload_closure fetch_outcome
  | ClickProcess string
  | ProcessSettled "js_error + unit"
  | ClickDelete string bool
  | DeleteSettled string "js_error + unit"
  | ClickToggle string bool
  | ToggleSettled string "js_error + PermanentResponse"

fun step :: "action \<Rightarrow> page \<Rightarrow> page" where
  "step (EffectRun user) s = useEffect_body user s"
| "step (SelectTab user name) s =
     (if name = selectedCategory s then s
      else useEffect_body user (setSelectedCategory name s))"
| "step (TypeSearch text) s = setSearchQuery text s"
| "step (DragOver etype) s = handleDrag etype s"
| "step (FilesSettled r) s = fetchFiles_resume r s"
| "step (StatsSettled r) s = fetchStats_resume r s"
| "step (PathSettled r) s = fetchPath_resume r s"
| "step (PickFiles token e) s = fst (handleFileUpload token e s)"
| "step (PickerSettled c r) s = handleFileUpload_resume c r s"
| "step (DropFiles token dropped) s = fst (handleDrop token dropped s)"
| "step (DropSettled c r) s = handleDrop_resume c r s"
| "step (ClickProcess fid) s = handleProcessKnowledge fid s"
| "step (ProcessSettled r) s = handleProcessKnowledge_resume r s"
| "step (ClickDelete fid confirmed) s = fst (handleDelete fid confirmed s)"
| "step (DeleteSettled fid r) s = handleDelete_resume fid r s"
| "step (ClickToggle fid currentStatus) s = handleTogglePermanent fid currentStatus s"
| "step (ToggleSettled fid r) s = handleTogglePermanent_resume fid r s"

fun run :: "action list \<Rightarrow> page \<Rightarrow> page" where
  "run [] s = s"
| "run (a # as) s = run as (step a s)"

text \<open>The pieces that settle an upload, and the gestures that submit one.\<close>

fun settles_upload :: "action \<Rightarrow> bool" where
  "settles_upload (PickerSettled c r) = True"
| "settles_upload (DropSettled c r) = True"
| "settles_upload a = False"

fun submits_upload :: "action \<Rightarrow> bool" where
  "submits_upload (PickFiles token (ChangeEvent (Some fl))) = (fl \<noteq> [])"
| "submits_upload (DropFiles token (Some fl)) = (fl \<noteq> [])"
| "submits_upload a = False"

subsection \<open>Example data\<close>

text \<open>Two records and a page showing them under the images tab, for the concrete cases.\<close>

definition demo_photo :: MediaFile where
  "demo_photo =
     \<lparr>file_id = ''f1'', filename = ''1700000000-holiday.png'', original_name = ''Holiday.PNG'',
      mime_type = ''image/png'', category = ''images'', file_size = 2097152, platform = None,
      chat_id = None, processed = False, created_at = ''2024-01-01T00:00:00Z'',
      is_permanent = None\<rparr>"

definition demo_report :: MediaFile where
  "demo_report =
     \<lparr>file_id = ''f2'', filename = ''1700000001-report.pdf'', original_name = ''report.pdf'',
      mime_type = ''application/pdf'', category = ''documents'', file_size = 1048576,
      platform = None, chat_id = None, processed = True,
      created_at = ''2024-01-02T00:00:00Z'', is_permanent = Some 1\<rparr>"

text \<open>A record whose category is not written in lower case.\<close>

definition demo_scan :: MediaFile where
  "demo_scan =
     \<lparr>file_id = ''f3'', filename = ''1700000002-scan.tif'', original_name = ''scan.tif'',
      mime_type = ''image/tiff'', category = ''Images'', file_size = 512, platform = None,
      chat_id = None, processed = False, created_at = ''2024-01-03T00:00:00Z'',
      is_permanent = Some 0\<rparr>"

definition demo_page :: page where
  "demo_page =
     initial_page\<lparr>files := [demo_photo, demo_report], selectedCategory := ''images''\<rparr>"

section \<open>Properties\<close>

subsection \<open>Rendering a byte count\<close>

text \<open>
  \<open>floor_log\<close> is the floor of the real quotient of logarithms that the code computes.
\<close>

lemma floor_log_real:
  "1 < k \<Longrightarrow> 0 < n \<Longrightarrow> floor_log k n = nat \<lfloor>ln (real n) / ln (real k)\<rfloor>"
proof (induction k n rule: floor_log.induct)
  case (1 k n)
  show ?case
  proof (cases "n < k")
    case True
    then have "log (real k) (real n) < 1" using 1 by simp
    moreover have "0 \<le> log (real k) (real n)" using 1 by simp
    ultimately have "\<lfloor>log (real k) (real n)\<rfloor> = 0" by linarith
    then show ?thesis using True by (simp add: floor_log.simps log_def)
  next
    case False
    then have d: "0 < n div k" using 1 by (simp add: div_greater_zero_iff)
    have ih: "floor_log k (n div k) = nat \<lfloor>ln (real (n div k)) / ln (real k)\<rfloor>"
      using 1 False d by simp
    have "\<lfloor>log (real k) (real n)\<rfloor> = \<lfloor>log (real k) (real (n div k))\<rfloor> + 1"
      using floor_log_div[of k n] 1 d by simp
    moreover have "0 \<le> \<lfloor>log (real k) (real (n div k))\<rfloor>" using 1 d by simp
    ultimately show ?thesis using False 1 ih
      by (subst floor_log.simps) (simp add: log_def nat_add_distrib)
  qed
qed

lemma floor_log_ge: "1 < k \<Longrightarrow> k ^ m \<le> n \<Longrightarrow> m \<le> floor_log k n"
proof (induction m arbitrary: n)
  case 0
  then show ?case by simp
next
  case (Suc m)
  have "k * k ^ m \<le> n" using Suc.prems(2) by simp
  then have km: "k ^ m \<le> n div k"
    using Suc.prems(1) by (simp add: less_eq_div_iff_mult_less_eq mult.commute)
  have "1 \<le> k ^ m" using Suc.prems(1) by simp
  then have "k \<le> k * k ^ m" by simp
  then have kn: "k \<le> n" using \<open>k * k ^ m \<le> n\<close> by (rule le_trans)
  have "m \<le> floor_log k (n div k)" using Suc.IH Suc.prems(1) km by blast
  then show ?case using kn Suc.prems(1) by (subst floor_log.simps) simp
qed

lemmas formatFileSize_eval =
  formatFileSize_def unit_index_def floor_log.simps toFixed2_def number_to_string_def
  digits.simps digit_char_def js_to_string_def js_index_def sizes_def

text \<open>
  Claim C8. \<^verbatim>\<open>formatFileSize\<close> renders 3145728 bytes as \<^verbatim>\<open>3 MB\<close> and 0 bytes as
  \<^verbatim>\<open>0 Bytes\<close>; the storage-usage headline of the statistics of the scenario (3 files,
  3145728 bytes, two images of 2097152 bytes and one document of 1048576 bytes) reads
  \<^verbatim>\<open>3 MB\<close>.
\<close>

theorem formatFileSize_scenario:
  "formatFileSize 3145728 = ''3 MB'' \<and>
   formatFileSize 0 = ''0 Bytes'' \<and>
   storageUsage (Some \<lparr>totalFiles = 3, totalSize = 3145728,
       byCategory = [(''images'', \<lparr>cat_count = 2, cat_size = 2097152\<rparr>),
                     (''documents'', \<lparr>cat_count = 1, cat_size = 1048576\<rparr>)]\<rparr>) = ''3 MB''"
  by (simp add: storageUsage_def formatFileSize_eval)

text \<open>
  Claim C9. For every byte count of at least \<open>1024 ^ 4\<close> the unit index of
  \<^verbatim>\<open>formatFileSize\<close> is past the end of the four-element array \<^verbatim>\<open>sizes\<close>, the
  lookup yields no unit, and the returned string ends in \<^verbatim>\<open>undefined\<close>.
\<close>

theorem formatFileSize_unit_out_of_range:
  assumes "1024 ^ 4 \<le> bytes"
  shows "length sizes \<le> unit_index bytes \<and>
         js_index sizes (unit_index bytes) = None \<and>
         formatFileSize bytes =
           number_to_string (toFixed2 bytes (1024 ^ unit_index bytes)) @ '' undefined''"
proof -
  have i: "4 \<le> unit_index bytes"
    unfolding unit_index_def using assms by (intro floor_log_ge) simp_all
  have b: "bytes \<noteq> 0" using assms by auto
  show ?thesis
    using i b by (simp add: formatFileSize_def js_index_def js_to_string_def sizes_def)
qed

theorem formatFileSize_unit_out_of_range_witness:
  "(1024::nat) ^ 4 \<le> 2 ^ 40 \<and> length sizes = 4 \<and> unit_index (2 ^ 40) = 4 \<and>
   js_index sizes (unit_index (2 ^ 40)) = None \<and>
   formatFileSize (2 ^ 40) = ''1 undefined''"
  using formatFileSize_unit_out_of_range [of "2 ^ 40"] by (simp add: formatFileSize_eval)

subsection \<open>Traces\<close>

lemma trace_emit [simp]: "trace (emit e s) = trace s @ [e]"
  and files_emit [simp]: "files (emit e s) = files s"
  and isUploading_emit [simp]: "isUploading (emit e s) = isUploading s"
  by (simp_all add: emit_def)

lemma requests_append [simp]: "requests (t @ u) = requests t @ requests u"
  by (simp add: requests_def)

lemma requests_simps [simp]:
  "requests [] = []"
  "requests (ApiFetch u m b # t) = ApiFetch u m b # requests t"
  "requests (Fetch u' m' h b' # t) = Fetch u' m' h b' # requests t"
  "requests (ToastSuccess x # t) = requests t"
  "requests (ToastError x # t) = requests t"
  "requests (ToastLoading x # t) = requests t"
  "requests (ToastDismiss # t) = requests t"
  "requests (ConsoleError xs # t) = requests t"
  "requests (Confirm x # t) = requests t"
  "requests (PreventDefault # t) = requests t"
  "requests (StopPropagation # t) = requests t"
  by (simp_all add: requests_def)

lemma uploads_append [simp]: "uploads (t @ u) = uploads t @ uploads u"
  by (simp add: uploads_def)

lemma uploads_simps [simp]:
  "uploads [] = []"
  "uploads (ApiFetch u m b # t) = uploads t"
  "uploads (Fetch ''/api/files/upload'' POST h b' # t) =
     Fetch ''/api/files/upload'' POST h b' # uploads t"
  "uploads (ToastSuccess x # t) = uploads t"
  "uploads (ToastError x # t) = uploads t"
  "uploads (ConsoleError xs # t) = uploads t"
  "uploads (PreventDefault # t) = uploads t"
  "uploads (StopPropagation # t) = uploads t"
  by (simp_all add: uploads_def)

subsection \<open>Retention, deletion, knowledge processing\<close>

text \<open>
  Claim C2. After \<^verbatim>\<open>handleTogglePermanent(X, cur)\<close> whose request succeeds with the
  answer \<open>res\<close>, the list has its length, every record with id \<open>X\<close> is the old record with
  \<^verbatim>\<open>is_permanent\<close> set to the value of the answer (whatever \<open>cur\<close> asked for), and every
  record with another id is the old record. When the request fails, the list is the old
  list.
\<close>

theorem handleTogglePermanent_patch:
  "length (files (handleTogglePermanent_resume X (Inr res) (handleTogglePermanent X cur s))) =
     length (files s) \<and>
   (\<forall>i<length (files s).
      files (handleTogglePermanent_resume X (Inr res) (handleTogglePermanent X cur s)) ! i =
        (if file_id (files s ! i) = X
         then (files s ! i)\<lparr>is_permanent := res_is_permanent res\<rparr>
         else files s ! i)) \<and>
   files (handleTogglePermanent_resume X (Inl err) (handleTogglePermanent X cur s)) = files s"
  by (simp add: handleTogglePermanent_def handleTogglePermanent_resume_def Let_def)

text \<open>
  On the example page: the toggle asks for permanent (\<open>cur\<close> is false), the server answers
  0, and the record reads 0.
\<close>

theorem handleTogglePermanent_patch_witness:
  "files (handleTogglePermanent_resume ''f1'' (Inr \<lparr>res_is_permanent = Some 0\<rparr>)
            (handleTogglePermanent ''f1'' False demo_page)) =
     [demo_photo\<lparr>is_permanent := Some 0\<rparr>, demo_report] \<and>
   files (handleTogglePermanent_resume ''f1'' (Inl ''Network error'')
            (handleTogglePermanent ''f1'' False demo_page)) = [demo_photo, demo_report]"
  using handleTogglePermanent_patch
    [of "''f1''" "\<lparr>res_is_permanent = Some 0\<rparr>" False demo_page "''Network error''"]
  by (simp add: handleTogglePermanent_def handleTogglePermanent_resume_def Let_def
      demo_page_def initial_page_def demo_photo_def demo_report_def)

text \<open>
  Claim C3. A confirmed \<^verbatim>\<open>handleDelete(X)\<close> issues the request and leaves the list as
  it is. When the request succeeds, the list becomes the old list without the records of
  id \<open>X\<close> (the other records stay, in their order), so no record of id \<open>X\<close> is left. When
  the request fails, with whatever error, the list is the old list.
\<close>

theorem handleDelete_prunes:
  "snd (handleDelete X True s) \<and>
   files (fst (handleDelete X True s)) = files s \<and>
   files (handleDelete_resume X (Inr v) (fst (handleDelete X True s))) =
     filter (\<lambda>f. file_id f \<noteq> X) (files s) \<and>
   (\<forall>f \<in> set (files (handleDelete_resume X (Inr v) (fst (handleDelete X True s)))).
      file_id f \<noteq> X) \<and>
   files (handleDelete_resume X (Inl err) (fst (handleDelete X True s))) = files s"
  by (simp add: handleDelete_def handleDelete_resume_def Let_def fetchStats_def)

theorem handleDelete_prunes_witness:
  "files (handleDelete_resume ''f1'' (Inr ()) (fst (handleDelete ''f1'' True demo_page))) =
     [demo_report] \<and>
   files (handleDelete_resume ''f1'' (Inl ''HTTP 500'')
            (fst (handleDelete ''f1'' True demo_page))) = [demo_photo, demo_report]"
  using handleDelete_prunes [of "''f1''" demo_page "()" "''HTTP 500''"]
  by (simp add: handleDelete_def handleDelete_resume_def Let_def fetchStats_def
      demo_page_def initial_page_def demo_photo_def demo_report_def)

text \<open>
  Claim C7. \<^verbatim>\<open>handleProcessKnowledge(fid)\<close> notifies the user and issues the request
  in one go, before any answer; neither this part nor the part after the answer, whether
  the request succeeded or failed, changes the list of records, so every \<^verbatim>\<open>processed\<close>
  flag is as before.
\<close>

theorem handleProcessKnowledge_frame:
  "trace (handleProcessKnowledge fid s) =
     trace s @ [ToastLoading ''Processing file for Knowledge Bank...'',
                ApiFetch (''/api/files/'' @ fid @ ''/process-knowledge'') (Some POST) None] \<and>
   files (handleProcessKnowledge fid s) = files s \<and>
   files (handleProcessKnowledge_resume r s') = files s' \<and>
   map processed (files (handleProcessKnowledge_resume r (handleProcessKnowledge fid s))) =
     map processed (files s)"
  by (simp add: handleProcessKnowledge_def handleProcessKnowledge_resume_def split: sum.split)

subsection \<open>Uploading\<close>

text \<open>
  Claim C10. Called with a DOM event, \<^verbatim>\<open>handleFileUpload\<close> returns early with the
  state as it was: no request, no flag, no change. A drop of at least one file is uploaded
  by \<^verbatim>\<open>handleDrop\<close> itself, which issues the request and sets the flag.
\<close>

theorem handleFileUpload_dom_event:
  assumes "fl \<noteq> []"
  shows "handleFileUpload token DomEvent s = (s, None) \<and>
         snd (handleDrop token (Some fl) s) =
           Some \<lparr>submitted = length fl, closure_category = ''all''\<rparr> \<and>
         trace (fst (handleDrop token (Some fl) s)) =
           trace s @ [PreventDefault, StopPropagation,
                      Fetch ''/api/files/upload'' POST [(''Authorization'', bearer token)]
                        (FormData (map (Pair ''files'') fl))] \<and>
         isUploading (fst (handleDrop token (Some fl) s))"
  using assms by (simp add: handleFileUpload_def handleDrop_def Let_def initial_page_def)

theorem handleFileUpload_dom_event_witness:
  "[''a'', ''b''] \<noteq> ([] :: blob list) \<and>
   handleFileUpload (Some ''t0'') DomEvent demo_page = (demo_page, None) \<and>
   trace (fst (handleDrop (Some ''t0'') (Some [''a'', ''b'']) demo_page)) =
     [PreventDefault, StopPropagation,
      Fetch ''/api/files/upload'' POST [(''Authorization'', ''Bearer t0'')]
        (FormData [(''files'', ''a''), (''files'', ''b'')])]"
  using handleFileUpload_dom_event [of "[''a'', ''b'']" "Some ''t0''" demo_page]
  by (simp add: demo_page_def initial_page_def bearer_def)

text \<open>
  A piece that settles no upload leaves a set flag set, and a piece that submits no upload
  leaves a cleared flag cleared; so it is along every sequence of such pieces.
\<close>

lemma step_keeps_uploading:
  "\<not> settles_upload a \<Longrightarrow> isUploading s \<Longrightarrow> isUploading (step a s)"
  by (cases a)
    (auto simp add: useEffect_body_def setSelectedCategory_def setSearchQuery_def
      handleDrag_def fetchFiles_def fetchStats_def fetchPath_def fetchFiles_resume_def
      fetchStats_resume_def fetchPath_resume_def handleFileUpload_def handleDrop_def
      handleProcessKnowledge_def handleProcessKnowledge_resume_def handleDelete_def
      handleDelete_resume_def handleTogglePermanent_def handleTogglePermanent_resume_def
      Let_def split: sum.split upload_event.split option.split)

lemma step_keeps_idle:
  "\<not> submits_upload a \<Longrightarrow> \<not> isUploading s \<Longrightarrow> \<not> isUploading (step a s)"
proof (cases a)
  case (PickFiles token e)
  assume "\<not> submits_upload a" "\<not> isUploading s"
  then show ?thesis using PickFiles
    by (cases e; cases "case e of ChangeEvent fs \<Rightarrow> fs | DomEvent \<Rightarrow> None")
      (auto simp add: handleFileUpload_def Let_def)
next
  case (DropFiles token dropped)
  assume "\<not> submits_upload a" "\<not> isUploading s"
  then show ?thesis using DropFiles
    by (cases dropped) (auto simp add: handleDrop_def Let_def)
qed (auto simp add: useEffect_body_def setSelectedCategory_def setSearchQuery_def
      handleDrag_def fetchFiles_def fetchStats_def fetchPath_def fetchFiles_resume_def
      fetchStats_resume_def fetchPath_resume_def handleFileUpload_resume_def
      handleDrop_resume_def
      handleProcessKnowledge_def handleProcessKnowledge_resume_def handleDelete_def
      handleDelete_resume_def handleTogglePermanent_def handleTogglePermanent_resume_def
      Let_def split: sum.split)

lemma run_keeps_uploading:
  "\<forall>a \<in> set acts. \<not> settles_upload a \<Longrightarrow> isUploading s \<Longrightarrow> isUploading (run acts s)"
  by (induction acts arbitrary: s) (simp_all add: step_keeps_uploading)

lemma run_keeps_idle:
  "\<forall>a \<in> set acts. \<not> submits_upload a \<Longrightarrow> \<not> isUploading s \<Longrightarrow> \<not> isUploading (run acts s)"
  by (induction acts arbitrary: s) (simp_all add: step_keeps_idle)

lemma upload_handlers_at_await:
  assumes "fl \<noteq> []"
  shows
  "(\<exists>s1 c. handleFileUpload token (ChangeEvent (Some fl)) s = (s1, Some c) \<and>
      requests (trace s1) = requests (trace s) @
        [Fetch ''/api/files/upload'' POST [(''Authorization'', bearer token)]
           (FormData (map (Pair ''files'') fl))] \<and>
      files s1 = files s \<and> isUploading s1) \<and>
   (\<exists>s1 c. handleDrop token (Some fl) s = (s1, Some c) \<and>
      requests (trace s1) = requests (trace s) @
        [Fetch ''/api/files/upload'' POST [(''Authorization'', bearer token)]
           (FormData (map (Pair ''files'') fl))] \<and>
      files s1 = files s \<and> isUploading s1)"
  using assms by (simp add: handleFileUpload_def handleDrop_def Let_def)

lemma upload_resume_clears:
  "\<not> isUploading (handleFileUpload_resume c r s2) \<and>
   uploads (trace (handleFileUpload_resume c r s2)) = uploads (trace s2)"
  "\<not> isUploading (handleDrop_resume c r s2) \<and>
   uploads (trace (handleDrop_resume c r s2)) = uploads (trace s2)"
  by (simp_all add: handleFileUpload_resume_def handleDrop_resume_def fetchFiles_def
      fetchStats_def Let_def split: fetch_outcome.split bool.split)

lemma upload_resume_failure:
  "r \<noteq> Resolved True \<Longrightarrow>
     files (handleFileUpload_resume c r s2) = files s2 \<and>
     requests (trace (handleFileUpload_resume c r s2)) = requests (trace s2)"
  "r \<noteq> Resolved True \<Longrightarrow>
     files (handleDrop_resume c r s2) = files s2 \<and>
     requests (trace (handleDrop_resume c r s2)) = requests (trace s2)"
  by (cases r; auto simp add: handleFileUpload_resume_def handleDrop_resume_def Let_def)+

lemmas page_eval =
  useEffect_body_def setSelectedCategory_def setSearchQuery_def handleDrag_def
  fetchFiles_def fetchStats_def fetchPath_def fetchFiles_resume_def fetchStats_resume_def
  fetchPath_resume_def handleFileUpload_def handleFileUpload_resume_def handleDrop_def
  handleDrop_resume_def Let_def emit_def bearer_def demo_page_def initial_page_def
  digits.simps digit_char_def

text \<open>
  Claim C4, as stated, at two overlapping gestures on the example page. A file is picked,
  a second file is dropped while the first upload is pending, and the first upload
  settles: both transfers have been issued, the second has not settled, and
  \<^verbatim>\<open>isUploading\<close> is false. The flag is one boolean shared by all gestures.
\<close>

theorem upload_flag_overlap_counterexample:
  "snd (handleFileUpload (Some ''t0'') (ChangeEvent (Some [''a''])) demo_page) =
     Some \<lparr>submitted = 1, closure_category = ''images''\<rparr> \<and>
   snd (handleDrop (Some ''t0'') (Some [''b''])
          (step (PickFiles (Some ''t0'') (ChangeEvent (Some [''a'']))) demo_page)) =
     Some \<lparr>submitted = 1, closure_category = ''all''\<rparr> \<and>
   uploads (trace (run [PickFiles (Some ''t0'') (ChangeEvent (Some [''a''])),
                        DropFiles (Some ''t0'') (Some [''b'']),
                        PickerSettled \<lparr>submitted = 1, closure_category = ''images''\<rparr>
                          (Resolved True)] demo_page)) =
     [Fetch ''/api/files/upload'' POST [(''Authorization'', ''Bearer t0'')]
        (FormData [(''files'', ''a'')]),
      Fetch ''/api/files/upload'' POST [(''Authorization'', ''Bearer t0'')]
        (FormData [(''files'', ''b'')])] \<and>
   \<not> isUploading (run [PickFiles (Some ''t0'') (ChangeEvent (Some [''a''])),
                       DropFiles (Some ''t0'') (Some [''b'']),
                       PickerSettled \<lparr>submitted = 1, closure_category = ''images''\<rparr>
                         (Resolved True)] demo_page)"
  by (simp add: page_eval)

text \<open>
  Claim C4, amended. A gesture with a non-empty list \<open>fl\<close> of \<open>N\<close> files, through the
  picker or through a drop: the handler is suspended at its one \<^verbatim>\<open>fetch\<close>, a POST to
  \<^verbatim>\<open>/api/files/upload\<close> whose form data has one part named \<^verbatim>\<open>files\<close> per file, in
  order, and the list of records is untouched. From then on \<^verbatim>\<open>isUploading\<close> is true
  after every sequence of pieces none of which settles an upload, this one or another
  pending one. However the call settles, the part after it clears \<^verbatim>\<open>isUploading\<close>,
  which then stays false along every sequence of pieces that submits no upload, and it
  issues no further upload; when the call fails (rejected, or resolved with a status that
  is not ok) it leaves the list of records as it is and issues no request at all.
\<close>

theorem upload_gesture_transfer_and_flag:
  assumes "fl \<noteq> []"
  shows
  "(\<exists>s1 c. handleFileUpload token (ChangeEvent (Some fl)) s = (s1, Some c) \<and>
      requests (trace s1) = requests (trace s) @
        [Fetch ''/api/files/upload'' POST [(''Authorization'', bearer token)]
           (FormData (map (Pair ''files'') fl))] \<and>
      files s1 = files s \<and>
      (\<forall>acts. (\<forall>a \<in> set acts. \<not> settles_upload a) \<longrightarrow> isUploading (run acts s1)) \<and>
      (\<forall>r s2. \<not> isUploading (handleFileUpload_resume c r s2) \<and>
         uploads (trace (handleFileUpload_resume c r s2)) = uploads (trace s2)) \<and>
      (\<forall>r s2 acts. (\<forall>a \<in> set acts. \<not> submits_upload a) \<longrightarrow>
         \<not> isUploading (run acts (handleFileUpload_resume c r s2))) \<and>
      (\<forall>r s2. r \<noteq> Resolved True \<longrightarrow>
         files (handleFileUpload_resume c r s2) = files s2 \<and>
         requests (trace (handleFileUpload_resume c r s2)) = requests (trace s2))) \<and>
   (\<exists>s1 c. handleDrop token (Some fl) s = (s1, Some c) \<and>
      requests (trace s1) = requests (trace s) @
        [Fetch ''/api/files/upload'' POST [(''Authorization'', bearer token)]
           (FormData (map (Pair ''files'') fl))] \<and>
      files s1 = files s \<and>
      (\<forall>acts. (\<forall>a \<in> set acts. \<not> settles_upload a) \<longrightarrow> isUploading (run acts s1)) \<and>
      (\<forall>r s2. \<not> isUploading (handleDrop_resume c r s2) \<and>
         uploads (trace (handleDrop_resume c r s2)) = uploads (trace s2)) \<and>
      (\<forall>r s2 acts. (\<forall>a \<in> set acts. \<not> submits_upload a) \<longrightarrow>
         \<not> isUploading (run acts (handleDrop_resume c r s2))) \<and>
      (\<forall>r s2. r \<noteq> Resolved True \<longrightarrow>
         files (handleDrop_resume c r s2) = files s2 \<and>
         requests (trace (handleDrop_resume c r s2)) = requests (trace s2))) \<and>
   map fst (map (Pair ''files'') fl) = replicate (length fl) ''files'' \<and>
   map snd (map (Pair ''files'') fl) = fl"
proof -
  have parts: "map fst (map (Pair ''files'') fl) = replicate (length fl) ''files''"
    by (induction fl) simp_all
  have parts2: "map snd (map (Pair ''files'') fl) = fl"
    by (simp add: comp_def)
  have idle1: "\<not> isUploading (run acts (handleFileUpload_resume c r s2))"
    if "\<forall>a \<in> set acts. \<not> submits_upload a" for c r s2 acts
    using that upload_resume_clears(1) by (intro run_keeps_idle) simp_all
  have idle2: "\<not> isUploading (run acts (handleDrop_resume c r s2))"
    if "\<forall>a \<in> set acts. \<not> submits_upload a" for c r s2 acts
    using that upload_resume_clears(2) by (intro run_keeps_idle) simp_all
  from upload_handlers_at_await [OF assms, of token s]
  obtain s1 c s1' c' where
    p: "handleFileUpload token (ChangeEvent (Some fl)) s = (s1, Some c)"
       "requests (trace s1) = requests (trace s) @
          [Fetch ''/api/files/upload'' POST [(''Authorization'', bearer token)]
             (FormData (map (Pair ''files'') fl))]"
       "files s1 = files s" "isUploading s1" and
    d: "handleDrop token (Some fl) s = (s1', Some c')"
       "requests (trace s1') = requests (trace s) @
          [Fetch ''/api/files/upload'' POST [(''Authorization'', bearer token)]
             (FormData (map (Pair ''files'') fl))]"
       "files s1' = files s" "isUploading s1'"
    by blast
  have hold1: "\<forall>acts. (\<forall>a \<in> set acts. \<not> settles_upload a) \<longrightarrow> isUploading (run acts s1)"
    using p(4) run_keeps_uploading by blast
  have hold2: "\<forall>acts. (\<forall>a \<in> set acts. \<not> settles_upload a) \<longrightarrow> isUploading (run acts s1')"
    using d(4) run_keeps_uploading by blast
  have picker: "\<exists>s1 c. handleFileUpload token (ChangeEvent (Some fl)) s = (s1, Some c) \<and>
      requests (trace s1) = requests (trace s) @
        [Fetch ''/api/files/upload'' POST [(''Authorization'', bearer token)]
           (FormData (map (Pair ''files'') fl))] \<and>
      files s1 = files s \<and>
      (\<forall>acts. (\<forall>a \<in> set acts. \<not> settles_upload a) \<longrightarrow> isUploading (run acts s1)) \<and>
      (\<forall>r s2. \<not> isUploading (handleFileUpload_resume c r s2) \<and>
         uploads (trace (handleFileUpload_resume c r s2)) = uploads (trace s2)) \<and>
      (\<forall>r s2 acts. (\<forall>a \<in> set acts. \<not> submits_upload a) \<longrightarrow>
         \<not> isUploading (run acts (handleFileUpload_resume c r s2))) \<and>
      (\<forall>r s2. r \<noteq> Resolved True \<longrightarrow>
         files (handleFileUpload_resume c r s2) = files s2 \<and>
         requests (trace (handleFileUpload_resume c r s2)) = requests (trace s2))"
    using p(1-3) hold1 upload_resume_clears(1) idle1 upload_resume_failure(1) by blast
  have dropped: "\<exists>s1 c. handleDrop token (Some fl) s = (s1, Some c) \<and>
      requests (trace s1) = requests (trace s) @
        [Fetch ''/api/files/upload'' POST [(''Authorization'', bearer token)]
           (FormData (map (Pair ''files'') fl))] \<and>
      files s1 = files s \<and>
      (\<forall>acts. (\<forall>a \<in> set acts. \<not> settles_upload a) \<longrightarrow> isUploading (run acts s1)) \<and>
      (\<forall>r s2. \<not> isUploading (handleDrop_resume c r s2) \<and>
         uploads (trace (handleDrop_resume c r s2)) = uploads (trace s2)) \<and>
      (\<forall>r s2 acts. (\<forall>a \<in> set acts. \<not> submits_upload a) \<longrightarrow>
         \<not> isUploading (run acts (handleDrop_resume c r s2))) \<and>
      (\<forall>r s2. r \<noteq> Resolved True \<longrightarrow>
         files (handleDrop_resume c r s2) = files s2 \<and>
         requests (trace (handleDrop_resume c r s2)) = requests (trace s2))"
    using d(1-3) hold2 upload_resume_clears(2) idle2 upload_resume_failure(2) by blast
  show ?thesis using picker dropped parts parts2 by blast
qed

text \<open>
  Two files on the example page: the picker's handler at its \<^verbatim>\<open>await\<close>; the flag
  after a search, a tab change and an inventory answer that arrive while the upload is
  pending; a picker gesture answered with a status that is not ok; and a drop whose
  request is rejected.
\<close>

theorem upload_gesture_transfer_and_flag_witness:
  "[''a'', ''b''] \<noteq> ([] :: blob list) \<and>
   handleFileUpload (Some ''t0'') (ChangeEvent (Some [''a'', ''b''])) demo_page =
     (demo_page\<lparr>isUploading := True,
                trace := [Fetch ''/api/files/upload'' POST [(''Authorization'', ''Bearer t0'')]
                            (FormData [(''files'', ''a''), (''files'', ''b'')])]\<rparr>,
      Some \<lparr>submitted = 2, closure_category = ''images''\<rparr>) \<and>
   isUploading (run [PickFiles (Some ''t0'') (ChangeEvent (Some [''a'', ''b''])),
                     TypeSearch ''report'', SelectTab True ''all'',
                     FilesSettled (Inr [demo_photo, demo_report])] demo_page) \<and>
   picker_gesture (Some ''t0'') [''a'', ''b''] (Resolved False) demo_page =
     demo_page\<lparr>trace := [Fetch ''/api/files/upload'' POST [(''Authorization'', ''Bearer t0'')]
                            (FormData [(''files'', ''a''), (''files'', ''b'')]),
                          ToastError ''Failed to upload files'',
                          ConsoleError [''Upload failed'']]\<rparr> \<and>
   drop_gesture (Some ''t0'') [''a'', ''b''] (Rejected ''Failed to fetch'') demo_page =
     demo_page\<lparr>trace := [PreventDefault, StopPropagation,
                          Fetch ''/api/files/upload'' POST [(''Authorization'', ''Bearer t0'')]
                            (FormData [(''files'', ''a''), (''files'', ''b'')]),
                          ToastError ''Upload failed'']\<rparr>"
  using upload_gesture_transfer_and_flag
    [of "[''a'', ''b'']" "Some ''t0''" demo_page]
  by (simp add: picker_gesture_def drop_gesture_def page_eval)

text \<open>
  Claim C5. The two paths at the same batch of two files on the example page, whose tab is
  images. On success the picker path reports the count and reloads the inventory of the
  selected category; the drop path reports no count and reloads the unfiltered inventory.
  On a failed upload the picker path reports \<^verbatim>\<open>Failed to upload files\<close> and writes to
  the console; the drop path reports \<^verbatim>\<open>Upload failed\<close> and writes nothing.
\<close>

theorem picker_and_drop_differ:
  "trace (picker_gesture (Some ''t0'') [''a'', ''b''] (Resolved True) demo_page) =
     [Fetch ''/api/files/upload'' POST [(''Authorization'', ''Bearer t0'')]
        (FormData [(''files'', ''a''), (''files'', ''b'')]),
      ToastSuccess ''Uploaded 2 files successfully'',
      ApiFetch ''/api/files?category=images'' None None,
      ApiFetch ''/api/files/stats'' None None] \<and>
   trace (drop_gesture (Some ''t0'') [''a'', ''b''] (Resolved True) demo_page) =
     [PreventDefault, StopPropagation,
      Fetch ''/api/files/upload'' POST [(''Authorization'', ''Bearer t0'')]
        (FormData [(''files'', ''a''), (''files'', ''b'')]),
      ToastSuccess ''Files uploaded'',
      ApiFetch ''/api/files'' None None,
      ApiFetch ''/api/files/stats'' None None] \<and>
   trace (picker_gesture (Some ''t0'') [''a'', ''b''] (Resolved False) demo_page) =
     [Fetch ''/api/files/upload'' POST [(''Authorization'', ''Bearer t0'')]
        (FormData [(''files'', ''a''), (''files'', ''b'')]),
      ToastError ''Failed to upload files'',
      ConsoleError [''Upload failed'']] \<and>
   trace (drop_gesture (Some ''t0'') [''a'', ''b''] (Resolved False) demo_page) =
     [PreventDefault, StopPropagation,
      Fetch ''/api/files/upload'' POST [(''Authorization'', ''Bearer t0'')]
        (FormData [(''files'', ''a''), (''files'', ''b'')]),
      ToastError ''Upload failed'']"
  by (simp add: picker_gesture_def drop_gesture_def handleFileUpload_def handleDrop_def
      handleFileUpload_resume_def handleDrop_resume_def fetchFiles_def fetchStats_def
      Let_def bearer_def demo_page_def initial_page_def digits.simps digit_char_def)

subsection \<open>Category and search\<close>

lemma includes_str_Nil [simp]: "includes_str s []"
  by (cases s) simp_all

lemma filteredFiles_empty_query [simp]: "filteredFiles fs [] = fs"
  by (simp add: filteredFiles_def toLowerCase_def)




text \<open>\<open>includes_str\<close> is the substring relation.\<close>

lemma includes_str_iff: "includes_str s t \<longleftrightarrow> (\<exists>a b. s = a @ t @ b)"
proof (induction s)
  case Nil
  then show ?case by simp
next
  case (Cons c s)
  show ?case
  proof
    assume "includes_str (c # s) t"
    then consider "take (length t) (c # s) = t" | "includes_str s t" by auto
    then show "\<exists>a b. c # s = a @ t @ b"
    proof cases
      case 1
      then have "c # s = [] @ t @ drop (length t) (c # s)"
        by (metis append_Nil append_take_drop_id)
      then show ?thesis by blast
    next
      case 2
      then obtain a b where "s = a @ t @ b" using Cons.IH by blast
      then have "c # s = (c # a) @ t @ b" by simp
      then show ?thesis by blast
    qed
  next
    assume "\<exists>a b. c # s = a @ t @ b"
    then obtain a b where ab: "c # s = a @ t @ b" by blast
    show "includes_str (c # s) t"
    proof (cases a)
      case Nil
      then have "take (length t) (c # s) = t" using ab by simp
      then show ?thesis by simp
    next
      case (Cons x a')
      then have "s = a' @ t @ b" using ab by simp
      then have "includes_str s t" using Cons.IH by blast
      then show ?thesis by simp
    qed
  qed
qed

text \<open>
  What the displayed list is: the fetched records whose name contains the search text,
  case ignored, or whose category as stored contains the lower-cased search text. It
  is the search of the specification on lists whose categories are in lower case.
\<close>

lemma filteredFiles_subset: "set (filteredFiles fs q) \<subseteq> set fs"
  by (auto simp add: filteredFiles_def)

lemma filteredFiles_member:
  "r \<in> set (filteredFiles fs q) \<longleftrightarrow>
     r \<in> set fs \<and>
     (ci_substring q (original_name r) \<or> includes_str (category r) (toLowerCase q))"
  by (auto simp add: filteredFiles_def ci_substring_def)

lemma filteredFiles_lowercase:
  "\<forall>f \<in> set fs. toLowerCase (category f) = category f \<Longrightarrow>
   filteredFiles fs q = spec_filtered fs q"
  unfolding filteredFiles_def spec_filtered_def ci_substring_def
  by (rule filter_cong) auto

text \<open>
  Claim C1. A record of category \<^verbatim>\<open>Images\<close> and the search text \<^verbatim>\<open>Images\<close>: the text
  is a case-insensitive substring of the category, so the search of the specification
  keeps the record, and the displayed list is empty.
\<close>

theorem filteredFiles_category_case:
  "ci_substring ''Images'' (category demo_scan) \<and>
   filteredFiles [demo_scan] ''Images'' = [] \<and>
   spec_filtered [demo_scan] ''Images'' = [demo_scan]"
  by (simp add: filteredFiles_def spec_filtered_def ci_substring_def demo_scan_def
      toLowerCase_def toLowerChar_def)

end
